theory Spec2Isabelle
  imports Complex_Main
begin

section \<open>OSIRISv2 3d-vis: the spherical comparison script\<close>

text \<open>
  The script \<^verbatim>\<open>OSIRISv2/3d-vis/vis.py\<close> reads a table of spherical measurements,
  converts the test and the real readings to Cartesian points and plots both clouds with a
  segment between the points of each row.

  Numbers: the script computes with IEEE doubles. The finite ones are modelled as the
  reals, so rounding and overflow are outside the model; an identity proved here is the
  exact identity that the doubles approximate. The non-finite doubles (\<^verbatim>\<open>nan\<close> and the
  two infinities, which \<^verbatim>\<open>float\<close> accepts as text) are added where a property depends
  on them: the type \<open>float64\<close> below.
\<close>

subsection \<open>The transform (lines 7 to 18)\<close>

text \<open>\<^verbatim>\<open>np.radians\<close>: degrees to radians.\<close>

definition radians :: "real \<Rightarrow> real" where
  "radians d = d * pi / 180"

definition spherical_to_cartesian_custom :: "real \<Rightarrow> real \<Rightarrow> real \<Rightarrow> real \<times> real \<times> real" where
  "spherical_to_cartesian_custom R theta_deg phi_deg =
     (let theta = radians theta_deg;
          phi = radians phi_deg;
          x = R * cos theta * cos phi;
          y = R * cos theta * sin phi;
          z = R * sin theta
      in (x, y, z))"

text \<open>
  The textbook (ISO, physics) convention the spec contrasts the transform with: theta is
  the inclination from +Z. It is not part of the script; it only serves the comparison.
\<close>

definition iso_spherical_to_cartesian :: "real \<Rightarrow> real \<Rightarrow> real \<Rightarrow> real \<times> real \<times> real" where
  "iso_spherical_to_cartesian R theta_deg phi_deg =
     (R * sin (radians theta_deg) * cos (radians phi_deg),
      R * sin (radians theta_deg) * sin (radians phi_deg),
      R * cos (radians theta_deg))"


subsection \<open>The transform on all doubles\<close>

text \<open>
  A double is a finite number, an infinity or \<^verbatim>\<open>nan\<close>. Multiplication, \<^verbatim>\<open>np.radians\<close>,
  \<^verbatim>\<open>np.cos\<close> and \<^verbatim>\<open>np.sin\<close> follow IEEE 754 on the non-finite values: \<^verbatim>\<open>nan\<close>
  propagates, zero times an infinity is \<^verbatim>\<open>nan\<close>, the sign of another product with an
  infinity is the product of the signs, and the cosine and the sine of an infinity are
  \<^verbatim>\<open>nan\<close> (numpy warns and returns it; nothing is raised). On finite values they are
  the real operations.
\<close>

datatype float64 = Finite real | PInf | NInf | NaN

fun mul64 :: "float64 \<Rightarrow> float64 \<Rightarrow> float64" where
  "mul64 NaN b = NaN"
| "mul64 a NaN = NaN"
| "mul64 (Finite a) (Finite b) = Finite (a * b)"
| "mul64 (Finite a) PInf = (if a = 0 then NaN else if 0 < a then PInf else NInf)"
| "mul64 (Finite a) NInf = (if a = 0 then NaN else if 0 < a then NInf else PInf)"
| "mul64 PInf (Finite b) = (if b = 0 then NaN else if 0 < b then PInf else NInf)"
| "mul64 NInf (Finite b) = (if b = 0 then NaN else if 0 < b then NInf else PInf)"
| "mul64 PInf PInf = PInf"
| "mul64 PInf NInf = NInf"
| "mul64 NInf PInf = NInf"
| "mul64 NInf NInf = PInf"

fun radians64 :: "float64 \<Rightarrow> float64" where
  "radians64 (Finite d) = Finite (radians d)"
| "radians64 v = v"

fun cos64 :: "float64 \<Rightarrow> float64" where
  "cos64 (Finite a) = Finite (cos a)"
| "cos64 v = NaN"

fun sin64 :: "float64 \<Rightarrow> float64" where
  "sin64 (Finite a) = Finite (sin a)"
| "sin64 v = NaN"

text \<open>Lines 7 to 18 again, on all doubles.\<close>

definition spherical_to_cartesian_custom64 ::
  "float64 \<Rightarrow> float64 \<Rightarrow> float64 \<Rightarrow> float64 \<times> float64 \<times> float64" where
  "spherical_to_cartesian_custom64 R theta_deg phi_deg =
     (let theta = radians64 theta_deg;
          phi = radians64 phi_deg;
          x = mul64 (mul64 R (cos64 theta)) (cos64 phi);
          y = mul64 (mul64 R (cos64 theta)) (sin64 phi);
          z = mul64 R (sin64 theta)
      in (x, y, z))"

text \<open>A point of the real model as a point of finite doubles.\<close>

definition finite_point :: "real \<times> real \<times> real \<Rightarrow> float64 \<times> float64 \<times> float64" where
  "finite_point p = (case p of (x, y, z) \<Rightarrow> (Finite x, Finite y, Finite z))"

subsection \<open>Errors\<close>

text \<open>
  The script catches nothing, so an exception ends the run. The exceptions it can raise
  after the file is open: \<^verbatim>\<open>KeyError\<close> with the missing key, \<^verbatim>\<open>ValueError\<close> (from
  \<^verbatim>\<open>float\<close> with the text that does not convert, and from the unpacking of line 39 or 40
  when there is nothing to unpack) and \<^verbatim>\<open>TypeError\<close> (from \<^verbatim>\<open>float(None)\<close>).
\<close>

datatype value_error = CouldNotConvert string | NotEnoughValues

datatype error = KeyError string | ValueError value_error | TypeError

definition bind_result :: "error + 'a \<Rightarrow> ('a \<Rightarrow> error + 'b) \<Rightarrow> error + 'b" where
  "bind_result m f = (case m of Inl e \<Rightarrow> Inl e | Inr v \<Rightarrow> f v)"

subsection \<open>The table and \<^verbatim>\<open>csv.DictReader\<close> (lines 25 to 27)\<close>

text \<open>
  The five column names, as the UTF-8 bytes of the source text: theta is CE B8, phi is
  CF 86 and the degree sign is C2 B0.
\<close>

definition col_R :: string where
  "col_R = ''R (cm)''"

definition col_test_theta :: string where
  "col_test_theta = ''Test '' @ [CHR 0xCE, CHR 0xB8] @ '' ('' @ [CHR 0xC2, CHR 0xB0] @ '')''"

definition col_test_phi :: string where
  "col_test_phi = ''Test '' @ [CHR 0xCF, CHR 0x86] @ '' ('' @ [CHR 0xC2, CHR 0xB0] @ '')''"

definition col_real_theta :: string where
  "col_real_theta = ''Real '' @ [CHR 0xCE, CHR 0xB8] @ '' ('' @ [CHR 0xC2, CHR 0xB0] @ '')''"

definition col_real_phi :: string where
  "col_real_phi = ''Real '' @ [CHR 0xCF, CHR 0x86] @ '' ('' @ [CHR 0xC2, CHR 0xB0] @ '')''"

text \<open>The columns in the order in which the loop body looks them up.\<close>

definition required_columns :: "string list" where
  "required_columns = [col_R, col_test_theta, col_test_phi, col_real_theta, col_real_phi]"

text \<open>
  The input is what \<^verbatim>\<open>csv.reader\<close> yields for the file: a list of rows, each a list of
  fields, a blank line being the empty row. \<^verbatim>\<open>DictReader\<close> takes the first row as the
  field names, skips the empty rows after it and turns every other row into a
  dictionary: \<^verbatim>\<open>dict(zip(fieldnames, row))\<close>, in which a later duplicate of a name wins,
  and then \<^verbatim>\<open>None\<close> (the default \<^verbatim>\<open>restval\<close>) under each field name a short row has
  no field for. The fields of a long row beyond the names go under the key \<^verbatim>\<open>None\<close>,
  which the script never looks up; the model leaves that entry out.
\<close>

type_synonym row_dict = "string \<rightharpoonup> string option"

definition dict_of_row :: "string list \<Rightarrow> string list \<Rightarrow> row_dict" where
  "dict_of_row fieldnames row =
     fold (\<lambda>key d. d(key \<mapsto> None)) (drop (length row) fieldnames)
       (fold (\<lambda>(key, v) d. d(key \<mapsto> Some v)) (zip fieldnames row) Map.empty)"

fun DictReader :: "string list list \<Rightarrow> row_dict list" where
  "DictReader [] = []"
| "DictReader (fieldnames # rows) =
     map (dict_of_row fieldnames) (filter (\<lambda>row. row \<noteq> []) rows)"

subsection \<open>The loader loop (lines 23 to 32)\<close>

text \<open>The five lists of line 23, the globals of the script that the loop fills.\<close>

record globals =
  R_list :: "real list"
  theta_test :: "real list"
  phi_test :: "real list"
  theta_real :: "real list"
  phi_real :: "real list"

definition initial :: globals where
  "initial = \<lparr>R_list = [], theta_test = [], phi_test = [], theta_real = [], phi_real = []\<rparr>"

text \<open>\<^verbatim>\<open>row[key]\<close>: a missing key raises \<^verbatim>\<open>KeyError\<close>.\<close>

definition getitem :: "row_dict \<Rightarrow> string \<Rightarrow> error + string option" where
  "getitem row key = (case row key of None \<Rightarrow> Inl (KeyError key) | Some v \<Rightarrow> Inr v)"

text \<open>
  \<^verbatim>\<open>float(v)\<close>. Python's grammar of float literals is the parameter \<open>parse\<close>, which
  gives the number a text denotes, or \<open>None\<close> where \<^verbatim>\<open>float\<close> raises \<^verbatim>\<open>ValueError\<close>.
  \<^verbatim>\<open>float(None)\<close> raises \<^verbatim>\<open>TypeError\<close>.
\<close>

definition float :: "(string \<Rightarrow> real option) \<Rightarrow> string option \<Rightarrow> error + real" where
  "float parse v =
     (case v of
        None \<Rightarrow> Inl TypeError
      | Some text \<Rightarrow>
          (case parse text of
             None \<Rightarrow> Inl (ValueError (CouldNotConvert text))
           | Some r \<Rightarrow> Inr r))"

definition float_cell :: "(string \<Rightarrow> real option) \<Rightarrow> row_dict \<Rightarrow> string \<Rightarrow> error + real" where
  "float_cell parse row key = bind_result (getitem row key) (float parse)"

text \<open>The loop body, lines 28 to 32: five lookups and conversions, each appended.\<close>

definition load_row :: "(string \<Rightarrow> real option) \<Rightarrow> globals \<Rightarrow> row_dict \<Rightarrow> error + globals" where
  "load_row parse g row =
     bind_result (float_cell parse row col_R) (\<lambda>v1.
     let g1 = g\<lparr>R_list := R_list g @ [v1]\<rparr> in
     bind_result (float_cell parse row col_test_theta) (\<lambda>v2.
     let g2 = g1\<lparr>theta_test := theta_test g1 @ [v2]\<rparr> in
     bind_result (float_cell parse row col_test_phi) (\<lambda>v3.
     let g3 = g2\<lparr>phi_test := phi_test g2 @ [v3]\<rparr> in
     bind_result (float_cell parse row col_real_theta) (\<lambda>v4.
     let g4 = g3\<lparr>theta_real := theta_real g3 @ [v4]\<rparr> in
     bind_result (float_cell parse row col_real_phi) (\<lambda>v5.
     Inr (g4\<lparr>phi_real := phi_real g4 @ [v5]\<rparr>))))))"

fun load_rows :: "(string \<Rightarrow> real option) \<Rightarrow> globals \<Rightarrow> row_dict list \<Rightarrow> error + globals" where
  "load_rows parse g [] = Inr g"
| "load_rows parse g (row # rows) =
     (case load_row parse g row of
        Inl e \<Rightarrow> Inl e
      | Inr g' \<Rightarrow> load_rows parse g' rows)"

definition load :: "(string \<Rightarrow> real option) \<Rightarrow> string list list \<Rightarrow> error + globals" where
  "load parse table = load_rows parse initial (DictReader table)"

subsection \<open>Conversion and unpacking (lines 35 to 40)\<close>

type_synonym point = "real \<times> real \<times> real"

definition test_xyz :: "globals \<Rightarrow> point list" where
  "test_xyz g =
     map (\<lambda>(R, t, p). spherical_to_cartesian_custom R t p)
       (zip (R_list g) (zip (theta_test g) (phi_test g)))"

definition real_xyz :: "globals \<Rightarrow> point list" where
  "real_xyz g =
     map (\<lambda>(R, t, p). spherical_to_cartesian_custom R t p)
       (zip (R_list g) (zip (theta_real g) (phi_real g)))"

text \<open>
  \<^verbatim>\<open>x, y, z = zip(*points)\<close>: the three coordinate sequences. With no points
  \<^verbatim>\<open>zip()\<close> yields nothing and the assignment to three targets raises \<^verbatim>\<open>ValueError\<close>.
\<close>

definition unzip3 :: "point list \<Rightarrow> error + real list \<times> real list \<times> real list" where
  "unzip3 points =
     (if points = [] then Inl (ValueError NotEnoughValues)
      else Inr (map fst points, map (fst \<circ> snd) points, map (snd \<circ> snd) points))"

subsection \<open>The renderer (lines 43 to 63)\<close>

text \<open>
  The calls into the plotting backend, in the order issued. \<open>Scatter\<close> carries the three
  coordinate sequences, the colour, the label and the marker; \<open>Plot\<close> is a line through
  the given coordinates, always drawn gray, dashed and 0.5 wide.
\<close>

datatype call =
    Figure
  | Add_subplot
  | Scatter "real list" "real list" "real list" string string string
  | Plot "real list" "real list" "real list"
  | Set_xlabel string
  | Set_ylabel string
  | Set_zlabel string
  | Set_title string
  | Legend
  | Tight_layout
  | Show

text \<open>The loop of lines 53 and 54 over \<^verbatim>\<open>zip(test_xyz, real_xyz)\<close>.\<close>

definition connect :: "point list \<Rightarrow> point list \<Rightarrow> call list" where
  "connect test_points real_points =
     map (\<lambda>((xt, yt, zt), (xr, yr, zr)). Plot [xt, xr] [yt, yr] [zt, zr])
       (zip test_points real_points)"

definition render :: "point list \<Rightarrow> point list \<Rightarrow> error + call list" where
  "render test_points real_points =
     bind_result (unzip3 test_points) (\<lambda>(x_test, y_test, z_test).
     bind_result (unzip3 real_points) (\<lambda>(x_real, y_real, z_real).
     Inr ([Figure, Add_subplot,
           Scatter x_test y_test z_test ''blue'' ''Test Points'' ''o'',
           Scatter x_real y_real z_real ''red'' ''Real Points'' ''^'']
          @ connect test_points real_points
          @ [Set_xlabel ''X (cm)'', Set_ylabel ''Y (cm)'', Set_zlabel ''Z (cm)'',
             Set_title ''3D Comparison of Spherical Points (Test vs Real)'',
             Legend, Tight_layout, Show])))"

subsection \<open>The whole script\<close>

text \<open>The run on a table: the calls issued to the backend, or the exception that ends it.\<close>

definition script :: "(string \<Rightarrow> real option) \<Rightarrow> string list list \<Rightarrow> error + call list" where
  "script parse table =
     bind_result (load parse table) (\<lambda>g. render (test_xyz g) (real_xyz g))"

subsection \<open>The body of the transform, statement by statement\<close>

text \<open>
  To say what a call does to the state of the program, the function is also given as the
  statements of its source, run on the environment of its locals and the environment of
  the globals of the script. The part of Python this needs: expressions over names with
  multiplication and the three numpy functions (taken as the functions above, the
  binding of the name \<^verbatim>\<open>np\<close> being outside the model), assignments to a name,
  \<^verbatim>\<open>global\<close> declarations and the return of a triple.
\<close>

datatype expr = Name string | Mul expr expr | Radians expr | Cos expr | Sin expr

datatype stmt = Assign string expr | Global string | Return expr expr expr

text \<open>
  A global holds a number or a sequence of numbers (the lists of line 23). The errors of
  a name: not bound as a global, not yet bound as a local, or bound to something that
  is not a number where the body computes with it.
\<close>

datatype pyvalue = Number float64 | Sequence "float64 list"

datatype name_error = NameError string | UnboundLocalError string | NotANumber

type_synonym env = "string \<rightharpoonup> pyvalue"

text \<open>
  Python's scoping: a name is local to a function when it is a parameter or is assigned
  somewhere in the body, unless the body declares it \<^verbatim>\<open>global\<close>. A local name is read
  from and written to the locals, any other name the globals.
\<close>

definition assigned :: "stmt list \<Rightarrow> string list" where
  "assigned body = concat (map (\<lambda>s. case s of Assign n e \<Rightarrow> [n] | _ \<Rightarrow> []) body)"

definition declared_global :: "stmt list \<Rightarrow> string list" where
  "declared_global body = concat (map (\<lambda>s. case s of Global n \<Rightarrow> [n] | _ \<Rightarrow> []) body)"

definition is_local :: "string list \<Rightarrow> stmt list \<Rightarrow> string \<Rightarrow> bool" where
  "is_local params body n \<longleftrightarrow>
     n \<in> set (params @ assigned body) \<and> n \<notin> set (declared_global body)"

definition lookup :: "(string \<Rightarrow> bool) \<Rightarrow> env \<Rightarrow> env \<Rightarrow> string \<Rightarrow> name_error + float64" where
  "lookup loc L G n =
     (if loc n
      then (case L n of
              None \<Rightarrow> Inl (UnboundLocalError n)
            | Some (Number v) \<Rightarrow> Inr v
            | Some (Sequence vs) \<Rightarrow> Inl NotANumber)
      else (case G n of
              None \<Rightarrow> Inl (NameError n)
            | Some (Number v) \<Rightarrow> Inr v
            | Some (Sequence vs) \<Rightarrow> Inl NotANumber))"

fun eval :: "(string \<Rightarrow> bool) \<Rightarrow> env \<Rightarrow> env \<Rightarrow> expr \<Rightarrow> name_error + float64" where
  "eval loc L G (Name n) = lookup loc L G n"
| "eval loc L G (Mul a b) =
     (case eval loc L G a of
        Inl err \<Rightarrow> Inl err
      | Inr u \<Rightarrow> (case eval loc L G b of Inl err \<Rightarrow> Inl err | Inr v \<Rightarrow> Inr (mul64 u v)))"
| "eval loc L G (Radians a) = map_sum id radians64 (eval loc L G a)"
| "eval loc L G (Cos a) = map_sum id cos64 (eval loc L G a)"
| "eval loc L G (Sin a) = map_sum id sin64 (eval loc L G a)"

text \<open>
  Running the statements: the outcome (the returned triple, \<open>None\<close> when the body ends
  without returning, or the error) and the globals as the run leaves them.
\<close>

fun exec :: "(string \<Rightarrow> bool) \<Rightarrow> stmt list \<Rightarrow> env \<Rightarrow> env
    \<Rightarrow> (name_error + (float64 \<times> float64 \<times> float64) option) \<times> env" where
  "exec loc [] L G = (Inr None, G)"
| "exec loc (Global n # rest) L G = exec loc rest L G"
| "exec loc (Assign n e # rest) L G =
     (case eval loc L G e of
        Inl err \<Rightarrow> (Inl err, G)
      | Inr v \<Rightarrow>
          if loc n then exec loc rest (L(n \<mapsto> Number v)) G
          else exec loc rest L (G(n \<mapsto> Number v)))"
| "exec loc (Return a b c # rest) L G =
     (case eval loc L G a of
        Inl err \<Rightarrow> (Inl err, G)
      | Inr x \<Rightarrow>
          (case eval loc L G b of
             Inl err \<Rightarrow> (Inl err, G)
           | Inr y \<Rightarrow>
               (case eval loc L G c of
                  Inl err \<Rightarrow> (Inl err, G)
                | Inr z \<Rightarrow> (Inr (Some (x, y, z)), G))))"

definition call :: "string list \<Rightarrow> stmt list \<Rightarrow> float64 list \<Rightarrow> env
    \<Rightarrow> (name_error + (float64 \<times> float64 \<times> float64) option) \<times> env" where
  "call params body args G =
     exec (is_local params body) body (map_of (zip params (map Number args))) G"

text \<open>The parameters of line 7 and the statements of lines 9 to 18.\<close>

definition spherical_to_cartesian_custom_params :: "string list" where
  "spherical_to_cartesian_custom_params = [''R'', ''theta_deg'', ''phi_deg'']"

definition spherical_to_cartesian_custom_body :: "stmt list" where
  "spherical_to_cartesian_custom_body =
     [Assign ''theta'' (Radians (Name ''theta_deg'')),
      Assign ''phi'' (Radians (Name ''phi_deg'')),
      Assign ''x'' (Mul (Mul (Name ''R'') (Cos (Name ''theta''))) (Cos (Name ''phi''))),
      Assign ''y'' (Mul (Mul (Name ''R'') (Cos (Name ''theta''))) (Sin (Name ''phi''))),
      Assign ''z'' (Mul (Name ''R'') (Sin (Name ''theta''))),
      Return (Name ''x'') (Name ''y'') (Name ''z'')]"

subsection \<open>The words of the spec about the table\<close>

text \<open>
  The header row and the data rows of a table: the rows after the header that are not
  blank. The number a data row holds in a column is the value its dictionary has under
  the column name, parsed; there is none when the name is missing, the row is too short
  or the text does not parse.
\<close>

definition header :: "string list list \<Rightarrow> string list" where
  "header table = (case table of [] \<Rightarrow> [] | fieldnames # rows \<Rightarrow> fieldnames)"

definition data_rows :: "string list list \<Rightarrow> string list list" where
  "data_rows table = (case table of [] \<Rightarrow> [] | fieldnames # rows \<Rightarrow> filter (\<lambda>row. row \<noteq> []) rows)"

definition cell_value ::
  "(string \<Rightarrow> real option) \<Rightarrow> string list \<Rightarrow> string list \<Rightarrow> string \<Rightarrow> real option" where
  "cell_value parse fieldnames row key =
     (case dict_of_row fieldnames row key of
        Some (Some text) \<Rightarrow> parse text
      | _ \<Rightarrow> None)"

text \<open>
  The globals a table holds when every number is there: column by column, the numbers of
  the data rows in their order. And the concatenation of two sets of lists, field by
  field.
\<close>

definition row_record :: "(string \<Rightarrow> real option) \<Rightarrow> string list \<Rightarrow> string list list \<Rightarrow> globals" where
  "row_record parse fieldnames rows =
     \<lparr>R_list = map (\<lambda>row. the (cell_value parse fieldnames row col_R)) rows,
      theta_test = map (\<lambda>row. the (cell_value parse fieldnames row col_test_theta)) rows,
      phi_test = map (\<lambda>row. the (cell_value parse fieldnames row col_test_phi)) rows,
      theta_real = map (\<lambda>row. the (cell_value parse fieldnames row col_real_theta)) rows,
      phi_real = map (\<lambda>row. the (cell_value parse fieldnames row col_real_phi)) rows\<rparr>"

definition append_globals :: "globals \<Rightarrow> globals \<Rightarrow> globals" where
  "append_globals g h =
     \<lparr>R_list = R_list g @ R_list h, theta_test = theta_test g @ theta_test h,
      phi_test = phi_test g @ phi_test h, theta_real = theta_real g @ theta_real h,
      phi_real = phi_real g @ phi_real h\<rparr>"

subsection \<open>An instance of the parameters\<close>

text \<open>
  For the examples: the part of the grammar of \<^verbatim>\<open>float\<close> made of the non-empty strings
  of decimal digits, each denoting its number (Python accepts more), and a table of two
  measurements with a blank line between them.
\<close>

fun decimal :: "nat \<Rightarrow> string \<Rightarrow> nat option" where
  "decimal n [] = Some n"
| "decimal n (c # cs) =
     (let d = of_char c :: nat
      in if 48 \<le> d \<and> d \<le> 57 then decimal (10 * n + (d - 48)) cs else None)"

definition parse_decimal :: "string \<Rightarrow> real option" where
  "parse_decimal text = (if text = [] then None else map_option real (decimal 0 text))"

definition example_table :: "string list list" where
  "example_table =
     [[col_R, col_test_theta, col_test_phi, col_real_theta, col_real_phi],
      [''10'', ''30'', ''45'', ''31'', ''44''],
      [],
      [''12'', ''60'', ''90'', ''61'', ''89'']]"

text \<open>A header that lacks the last required column.\<close>

definition short_header :: "string list" where
  "short_header = [col_R, col_test_theta, col_test_phi, col_real_theta]"



text \<open>
  The calls a run has issued to the backend: none when it ended with an exception, since
  every exception of the script is raised before line 43. And the calls that draw a
  connecting segment.
\<close>

fun is_Plot :: "call \<Rightarrow> bool" where
  "is_Plot (Plot xs ys zs) = True"
| "is_Plot c = False"

definition issued :: "error + call list \<Rightarrow> call list" where
  "issued result = (case result of Inl e \<Rightarrow> [] | Inr calls \<Rightarrow> calls)"

subsection \<open>Properties of the transform\<close>






text \<open>
  C1. The transform returns x = R cos(radians theta) cos(radians phi),
  y = R cos(radians theta) sin(radians phi) and z = R sin(radians theta), with radians the
  multiplication by pi/180; this is the custom convention and differs from the ISO one,
  for instance at R = 1, theta = 0, phi = 0.
\<close>

theorem spherical_to_cartesian_custom_formula:
  "spherical_to_cartesian_custom R theta phi =
     (R * cos (theta * pi / 180) * cos (phi * pi / 180),
      R * cos (theta * pi / 180) * sin (phi * pi / 180),
      R * sin (theta * pi / 180))
   \<and> spherical_to_cartesian_custom 1 0 0 = (1, 0, 0)
   \<and> iso_spherical_to_cartesian 1 0 0 = (0, 0, 1)"
  by (simp add: spherical_to_cartesian_custom_def iso_spherical_to_cartesian_def
      radians_def Let_def)



lemma transform64_finite:
  "spherical_to_cartesian_custom64 (Finite R) (Finite t) (Finite p)
     = finite_point (spherical_to_cartesian_custom R t p)"
  by (simp add: spherical_to_cartesian_custom64_def spherical_to_cartesian_custom_def
      finite_point_def Let_def)

text \<open>
  C3, as the script has it. With radius 0 and finite angles the transform returns the
  origin (0, 0, 0), whatever the angles.
\<close>

theorem spherical_to_cartesian_custom_zero_radius_finite:
  "spherical_to_cartesian_custom64 (Finite 0) (Finite theta) (Finite phi)
     = (Finite 0, Finite 0, Finite 0)"
  by (simp add: spherical_to_cartesian_custom64_def Let_def)

text \<open>
  C3 as stated fails: an angle that is \<^verbatim>\<open>nan\<close> or an infinity makes the cosine
  \<^verbatim>\<open>nan\<close>, and 0 times \<^verbatim>\<open>nan\<close> is \<^verbatim>\<open>nan\<close>.
\<close>

theorem spherical_to_cartesian_custom_zero_radius_counterexample:
  "spherical_to_cartesian_custom64 (Finite 0) NaN (Finite 0) = (NaN, NaN, NaN)
   \<and> spherical_to_cartesian_custom64 (Finite 0) PInf (Finite 0) = (NaN, NaN, NaN)
   \<and> spherical_to_cartesian_custom64 (Finite 0) (Finite 0) NaN = (NaN, NaN, Finite 0)"
  by (simp add: spherical_to_cartesian_custom64_def Let_def)


subsection \<open>Properties of the loader\<close>

lemma fold_put_other:
  "key \<notin> fst ` set kvs \<Longrightarrow> fold (\<lambda>(k, v) d. d(k \<mapsto> Some v)) kvs d key = d key"
  by (induction kvs arbitrary: d) auto

lemma fold_fill_other:
  "key \<notin> set ks \<Longrightarrow> fold (\<lambda>k d. d(k \<mapsto> None)) ks d key = d key"
  by (induction ks arbitrary: d) auto

lemma dict_of_row_missing:
  assumes "key \<notin> set fieldnames"
  shows "dict_of_row fieldnames row key = None"
proof -
  have a: "key \<notin> set (drop (length row) fieldnames)"
    using assms by (meson in_set_dropD)
  have b: "key \<notin> fst ` set (zip fieldnames row)"
    using assms by (auto dest: set_zip_leftD)
  show ?thesis
    by (simp add: dict_of_row_def fold_fill_other [OF a] fold_put_other [OF b])
qed

lemma float_cell_cell_value:
  "cell_value parse fieldnames row key = Some v
   \<longleftrightarrow> float_cell parse (dict_of_row fieldnames row) key = Inr v"
  by (auto simp: cell_value_def float_cell_def getitem_def float_def bind_result_def
      split: option.splits)

lemma float_cell_missing:
  "d key = None \<Longrightarrow> float_cell parse d key = Inl (KeyError key)"
  by (simp add: float_cell_def getitem_def bind_result_def)

lemma load_row_Inr:
  assumes "float_cell parse d col_R = Inr v1"
    and "float_cell parse d col_test_theta = Inr v2"
    and "float_cell parse d col_test_phi = Inr v3"
    and "float_cell parse d col_real_theta = Inr v4"
    and "float_cell parse d col_real_phi = Inr v5"
  shows "load_row parse g d =
     Inr \<lparr>R_list = R_list g @ [v1], theta_test = theta_test g @ [v2],
          phi_test = phi_test g @ [v3], theta_real = theta_real g @ [v4],
          phi_real = phi_real g @ [v5]\<rparr>"
  using assms by (simp add: load_row_def bind_result_def Let_def)

lemma load_row_InrD:
  assumes "load_row parse g d = Inr g'"
  shows "\<exists>v1 v2 v3 v4 v5.
     float_cell parse d col_R = Inr v1
     \<and> float_cell parse d col_test_theta = Inr v2
     \<and> float_cell parse d col_test_phi = Inr v3
     \<and> float_cell parse d col_real_theta = Inr v4
     \<and> float_cell parse d col_real_phi = Inr v5
     \<and> g' = \<lparr>R_list = R_list g @ [v1], theta_test = theta_test g @ [v2],
          phi_test = phi_test g @ [v3], theta_real = theta_real g @ [v4],
          phi_real = phi_real g @ [v5]\<rparr>"
  using assms by (auto simp: load_row_def bind_result_def Let_def split: sum.splits)

lemma required_columns_set:
  "set required_columns = {col_R, col_test_theta, col_test_phi, col_real_theta, col_real_phi}"
  by (simp add: required_columns_def)

lemma load_row_good:
  assumes "\<forall>key\<in>set required_columns. cell_value parse fieldnames row key \<noteq> None"
  shows "load_row parse g (dict_of_row fieldnames row) =
     Inr (append_globals g (row_record parse fieldnames [row]))"
proof -
  have c: "\<And>key. key \<in> set required_columns \<Longrightarrow>
     float_cell parse (dict_of_row fieldnames row) key
       = Inr (the (cell_value parse fieldnames row key))"
    using assms float_cell_cell_value by fastforce
  show ?thesis
    by (simp add: load_row_Inr [OF c c c c c] required_columns_set append_globals_def
        row_record_def)
qed

lemma append_row_record:
  "append_globals (append_globals g (row_record parse fieldnames [row]))
       (row_record parse fieldnames rows)
     = append_globals g (row_record parse fieldnames (row # rows))"
  by (simp add: append_globals_def row_record_def)

lemma load_rows_good:
  assumes "\<forall>row\<in>set rows. \<forall>key\<in>set required_columns.
     cell_value parse fieldnames row key \<noteq> None"
  shows "load_rows parse g (map (dict_of_row fieldnames) rows) =
     Inr (append_globals g (row_record parse fieldnames rows))"
  using assms
proof (induction rows arbitrary: g)
  case Nil
  show ?case
    by (simp add: append_globals_def row_record_def)
next
  case (Cons row rows)
  have here: "load_row parse g (dict_of_row fieldnames row) =
     Inr (append_globals g (row_record parse fieldnames [row]))"
    using Cons.prems by (simp add: load_row_good)
  have rest: "\<forall>row\<in>set rows. \<forall>key\<in>set required_columns.
     cell_value parse fieldnames row key \<noteq> None"
    using Cons.prems by simp
  have "load_rows parse g (map (dict_of_row fieldnames) (row # rows))
      = load_rows parse (append_globals g (row_record parse fieldnames [row]))
          (map (dict_of_row fieldnames) rows)"
    by (simp add: here)
  also have "\<dots> = Inr (append_globals (append_globals g (row_record parse fieldnames [row]))
      (row_record parse fieldnames rows))"
    by (rule Cons.IH [OF rest])
  finally show ?case
    by (simp only: append_row_record)
qed

lemma DictReader_rows:
  "DictReader table = map (dict_of_row (header table)) (data_rows table)"
  by (cases table) (simp_all add: header_def data_rows_def)

lemma append_initial: "append_globals initial g = g"
  by (simp add: append_globals_def initial_def)

lemma load_good:
  assumes "\<forall>row\<in>set (data_rows table). \<forall>key\<in>set required_columns.
     cell_value parse (header table) row key \<noteq> None"
  shows "load parse table = Inr (row_record parse (header table) (data_rows table))"
  by (simp add: load_def DictReader_rows load_rows_good [OF assms] append_initial)

lemma col_distinct: "distinct required_columns"
  by (simp add: required_columns_def col_R_def col_test_theta_def col_test_phi_def
      col_real_theta_def col_real_phi_def)

lemma example_rows:
  "data_rows example_table = [[''10'', ''30'', ''45'', ''31'', ''44''], [''12'', ''60'', ''90'', ''61'', ''89'']]"
  "header example_table = required_columns"
  by (simp_all add: example_table_def data_rows_def header_def required_columns_def)

lemma example_cells:
  "map (cell_value parse_decimal required_columns [''10'', ''30'', ''45'', ''31'', ''44'']) required_columns
     = [Some 10, Some 30, Some 45, Some 31, Some 44]"
  "map (cell_value parse_decimal required_columns [''12'', ''60'', ''90'', ''61'', ''89'']) required_columns
     = [Some 12, Some 60, Some 90, Some 61, Some 89]"
  using col_distinct
  by (simp_all add: required_columns_def cell_value_def dict_of_row_def parse_decimal_def)

text \<open>
  C5. When every data row of the table holds a number in each of the five required
  columns, the loader returns five lists, each as long as the table has data rows, whose
  i-th elements are the numbers of the i-th data row.
\<close>

theorem load_well_formed:
  assumes "\<forall>row\<in>set (data_rows table). \<forall>key\<in>set required_columns.
     cell_value parse (header table) row key \<noteq> None"
  shows "\<exists>g. load parse table = Inr g
     \<and> length (R_list g) = length (data_rows table)
     \<and> length (theta_test g) = length (data_rows table)
     \<and> length (phi_test g) = length (data_rows table)
     \<and> length (theta_real g) = length (data_rows table)
     \<and> length (phi_real g) = length (data_rows table)
     \<and> (\<forall>i<length (data_rows table).
          cell_value parse (header table) (data_rows table ! i) col_R = Some (R_list g ! i)
        \<and> cell_value parse (header table) (data_rows table ! i) col_test_theta
            = Some (theta_test g ! i)
        \<and> cell_value parse (header table) (data_rows table ! i) col_test_phi
            = Some (phi_test g ! i)
        \<and> cell_value parse (header table) (data_rows table ! i) col_real_theta
            = Some (theta_real g ! i)
        \<and> cell_value parse (header table) (data_rows table ! i) col_real_phi
            = Some (phi_real g ! i))"
proof -
  let ?g = "row_record parse (header table) (data_rows table)"
  have l: "load parse table = Inr ?g"
    by (rule load_good [OF assms])
  have v: "\<And>i key. i < length (data_rows table) \<Longrightarrow> key \<in> set required_columns \<Longrightarrow>
     cell_value parse (header table) (data_rows table ! i) key
       = Some (the (cell_value parse (header table) (data_rows table ! i) key))"
    using assms by (simp add: nth_mem)
  have "\<forall>i<length (data_rows table).
          cell_value parse (header table) (data_rows table ! i) col_R = Some (R_list ?g ! i)
        \<and> cell_value parse (header table) (data_rows table ! i) col_test_theta
            = Some (theta_test ?g ! i)
        \<and> cell_value parse (header table) (data_rows table ! i) col_test_phi
            = Some (phi_test ?g ! i)
        \<and> cell_value parse (header table) (data_rows table ! i) col_real_theta
            = Some (theta_real ?g ! i)
        \<and> cell_value parse (header table) (data_rows table ! i) col_real_phi
            = Some (phi_real ?g ! i)"
    using v by (simp add: row_record_def required_columns_set)
  moreover have "length (R_list ?g) = length (data_rows table)"
    "length (theta_test ?g) = length (data_rows table)"
    "length (phi_test ?g) = length (data_rows table)"
    "length (theta_real ?g) = length (data_rows table)"
    "length (phi_real ?g) = length (data_rows table)"
    by (simp_all add: row_record_def)
  ultimately show ?thesis
    using l by blast
qed

theorem load_well_formed_witness:
  "\<exists>g. load parse_decimal example_table = Inr g
     \<and> length (R_list g) = 2 \<and> R_list g ! 0 = 10 \<and> R_list g ! 1 = 12
     \<and> theta_test g ! 1 = 60 \<and> phi_real g ! 0 = 44"
proof -
  have h: "\<forall>row\<in>set (data_rows example_table). \<forall>key\<in>set required_columns.
     cell_value parse_decimal (header example_table) row key \<noteq> None"
    using example_cells by (simp add: example_rows required_columns_def)
  from load_well_formed [OF h] obtain g where g: "load parse_decimal example_table = Inr g"
    "length (R_list g) = length (data_rows example_table)"
    and v: "\<forall>i<length (data_rows example_table).
          cell_value parse_decimal (header example_table) (data_rows example_table ! i) col_R = Some (R_list g ! i)
        \<and> cell_value parse_decimal (header example_table) (data_rows example_table ! i) col_test_theta
            = Some (theta_test g ! i)
        \<and> cell_value parse_decimal (header example_table) (data_rows example_table ! i) col_test_phi
            = Some (phi_test g ! i)
        \<and> cell_value parse_decimal (header example_table) (data_rows example_table ! i) col_real_theta
            = Some (theta_real g ! i)
        \<and> cell_value parse_decimal (header example_table) (data_rows example_table ! i) col_real_phi
            = Some (phi_real g ! i)"
    by blast
  from v [rule_format, of 0] v [rule_format, of 1] example_cells
  have "R_list g ! 0 = 10" "R_list g ! 1 = 12" "theta_test g ! 1 = 60" "phi_real g ! 0 = 44"
    by (simp_all add: example_rows required_columns_def)
  with g show ?thesis
    by (simp add: example_rows)
qed

subsection \<open>How the loader fails\<close>

lemma load_row_Inl:
  assumes "key \<in> set required_columns" and "float_cell parse d key = Inl e0"
  shows "\<exists>e. load_row parse g d = Inl e"
proof (cases "load_row parse g d")
  case (Inl e)
  then show ?thesis by blast
next
  case (Inr g')
  from load_row_InrD [OF Inr] assms show ?thesis
    by (auto simp: required_columns_set)
qed

lemma load_rows_Inl:
  assumes "d \<in> set ds" and "\<And>g. \<exists>e. load_row parse g d = Inl e"
  shows "\<exists>e. load_rows parse g ds = Inl e"
  using assms(1)
proof (induction ds arbitrary: g)
  case Nil
  then show ?case by simp
next
  case (Cons a ds)
  show ?case
  proof (cases "load_row parse g a")
    case (Inl e)
    then show ?thesis by simp
  next
    case (Inr g')
    with assms(2) [of g] have "a \<noteq> d" by auto
    with Cons.prems have "d \<in> set ds" by simp
    from Cons.IH [OF this, of g'] Inr show ?thesis by simp
  qed
qed

lemma load_Inl:
  assumes "row \<in> set (data_rows table)" and "key \<in> set required_columns"
    and "float_cell parse (dict_of_row (header table) row) key = Inl e0"
  shows "\<exists>e. load parse table = Inl e"
proof -
  have "dict_of_row (header table) row \<in> set (DictReader table)"
    using assms(1) by (simp add: DictReader_rows)
  moreover have "\<And>g. \<exists>e. load_row parse g (dict_of_row (header table) row) = Inl e"
    using assms(2,3) by (rule load_row_Inl)
  ultimately show ?thesis
    unfolding load_def by (rule load_rows_Inl)
qed

lemma script_Inl: "load parse table = Inl e \<Longrightarrow> script parse table = Inl e"
  by (simp add: script_def bind_result_def)

lemma load_no_rows: "data_rows table = [] \<Longrightarrow> load parse table = Inr initial"
  by (simp add: load_def DictReader_rows)

lemma render_Nil: "render [] real_points = Inl (ValueError NotEnoughValues)"
  by (simp add: render_def unzip3_def bind_result_def)

lemma script_no_rows:
  "data_rows table = [] \<Longrightarrow> script parse table = Inl (ValueError NotEnoughValues)"
  by (simp add: script_def load_no_rows bind_result_def test_xyz_def initial_def render_Nil)

lemma load_row_first_missing:
  assumes "key \<in> set required_columns" and "d key = None"
    and "\<forall>k\<in>set (takeWhile (\<lambda>k. k \<noteq> key) required_columns). \<exists>v. float_cell parse d k = Inr v"
  shows "load_row parse g d = Inl (KeyError key)"
proof -
  have m: "float_cell parse d key = Inl (KeyError key)"
    using assms(2) by (rule float_cell_missing)
  have dist: "distinct required_columns"
    by (rule col_distinct)
  from assms(1) consider "key = col_R" | "key = col_test_theta" | "key = col_test_phi"
    | "key = col_real_theta" | "key = col_real_phi"
    by (auto simp: required_columns_set)
  then show ?thesis
  proof cases
    case 1
    with m show ?thesis
      by (simp add: load_row_def bind_result_def)
  next
    case 2
    with dist have "takeWhile (\<lambda>k. k \<noteq> key) required_columns = [col_R]"
      by (simp add: required_columns_def)
    with assms(3) obtain v1 where "float_cell parse d col_R = Inr v1"
      by auto
    with m 2 show ?thesis
      by (simp add: load_row_def bind_result_def Let_def)
  next
    case 3
    with dist have "takeWhile (\<lambda>k. k \<noteq> key) required_columns = [col_R, col_test_theta]"
      by (simp add: required_columns_def)
    with assms(3) obtain v1 v2 where "float_cell parse d col_R = Inr v1"
      "float_cell parse d col_test_theta = Inr v2"
      by auto
    with m 3 show ?thesis
      by (simp add: load_row_def bind_result_def Let_def)
  next
    case 4
    with dist have "takeWhile (\<lambda>k. k \<noteq> key) required_columns
        = [col_R, col_test_theta, col_test_phi]"
      by (simp add: required_columns_def)
    with assms(3) obtain v1 v2 v3 where "float_cell parse d col_R = Inr v1"
      "float_cell parse d col_test_theta = Inr v2" "float_cell parse d col_test_phi = Inr v3"
      by auto
    with m 4 show ?thesis
      by (simp add: load_row_def bind_result_def Let_def)
  next
    case 5
    with dist have "takeWhile (\<lambda>k. k \<noteq> key) required_columns
        = [col_R, col_test_theta, col_test_phi, col_real_theta]"
      by (simp add: required_columns_def)
    with assms(3) obtain v1 v2 v3 v4 where "float_cell parse d col_R = Inr v1"
      "float_cell parse d col_test_theta = Inr v2" "float_cell parse d col_test_phi = Inr v3"
      "float_cell parse d col_real_theta = Inr v4"
      by auto
    with m 5 show ?thesis
      by (simp add: load_row_def bind_result_def Let_def)
  qed
qed





lemma load_first_missing:
  assumes "key \<in> set required_columns" and "key \<notin> set (header table)"
    and "data_rows table \<noteq> []"
    and "\<forall>k\<in>set (takeWhile (\<lambda>k. k \<noteq> key) required_columns).
       cell_value parse (header table) (hd (data_rows table)) k \<noteq> None"
  shows "load parse table = Inl (KeyError key)"
proof -
  obtain row rows where rs: "data_rows table = row # rows"
    using assms(3) by (cases "data_rows table") auto
  let ?d = "dict_of_row (header table) row"
  have "?d key = None"
    using assms(2) by (rule dict_of_row_missing)
  moreover have "\<forall>k\<in>set (takeWhile (\<lambda>k. k \<noteq> key) required_columns).
      \<exists>v. float_cell parse ?d k = Inr v"
    using assms(4) float_cell_cell_value [of parse "header table" row]
    by (auto simp: rs)
  ultimately have "load_row parse initial ?d = Inl (KeyError key)"
    using assms(1) by (simp add: load_row_first_missing)
  then show ?thesis
    by (simp add: load_def DictReader_rows rs)
qed

text \<open>
  C6, as the script has it. When the header lacks a required column the run ends with an
  exception before any call to the plotting backend. With at least one data row it is the
  loading that fails, and with the key error of that column when the first data row holds
  a number in each of the required columns looked up before it. (With no data row the
  loop body never runs, the loader returns five empty lists and the run ends at the
  unpacking of line 39.)
\<close>

theorem missing_header_aborts:
  assumes "key \<in> set required_columns" and "key \<notin> set (header table)"
  shows "(\<exists>e. script parse table = Inl e)
     \<and> (data_rows table \<noteq> [] \<longrightarrow> (\<exists>e. load parse table = Inl e))
     \<and> (data_rows table \<noteq> []
          \<and> (\<forall>k\<in>set (takeWhile (\<lambda>k. k \<noteq> key) required_columns).
                cell_value parse (header table) (hd (data_rows table)) k \<noteq> None)
        \<longrightarrow> load parse table = Inl (KeyError key)
          \<and> script parse table = Inl (KeyError key))"
proof -
  have fails: "\<exists>e. load parse table = Inl e" if "data_rows table \<noteq> []"
  proof -
    from that have r: "hd (data_rows table) \<in> set (data_rows table)"
      by simp
    have "float_cell parse (dict_of_row (header table) (hd (data_rows table))) key
        = Inl (KeyError key)"
      using assms(2) by (simp add: float_cell_missing dict_of_row_missing)
    with r assms(1) show ?thesis
      by (rule load_Inl)
  qed
  have "\<exists>e. script parse table = Inl e"
  proof (cases "data_rows table = []")
    case True
    then show ?thesis by (simp add: script_no_rows)
  next
    case False
    with fails script_Inl show ?thesis by blast
  qed
  moreover have "load parse table = Inl (KeyError key)
      \<and> script parse table = Inl (KeyError key)"
    if "data_rows table \<noteq> []"
      and "\<forall>k\<in>set (takeWhile (\<lambda>k. k \<noteq> key) required_columns).
                cell_value parse (header table) (hd (data_rows table)) k \<noteq> None"
    using load_first_missing [OF assms that] by (simp add: script_Inl)
  ultimately show ?thesis
    using fails by blast
qed

lemma short_header_lacks: "col_real_phi \<notin> set short_header"
  by (simp add: short_header_def col_R_def col_test_theta_def col_test_phi_def
      col_real_theta_def col_real_phi_def)

lemma short_header_cells:
  "map (cell_value parse_decimal short_header [''10'', ''30'', ''45'', ''31'']) short_header
     = [Some 10, Some 30, Some 45, Some 31]"
  using col_distinct
  by (simp add: short_header_def required_columns_def cell_value_def dict_of_row_def
      parse_decimal_def)

theorem missing_header_aborts_witness:
  "load parse_decimal [short_header, [''10'', ''30'', ''45'', ''31'']] = Inl (KeyError col_real_phi)
   \<and> script parse_decimal [short_header, [''10'', ''30'', ''45'', ''31'']]
       = Inl (KeyError col_real_phi)"
proof -
  let ?t = "[short_header, [''10'', ''30'', ''45'', ''31'']]"
  have a: "col_real_phi \<in> set required_columns"
    by (simp add: required_columns_def)
  have b: "col_real_phi \<notin> set (header ?t)"
    using short_header_lacks by (simp add: header_def)
  have c: "data_rows ?t \<noteq> []"
    by (simp add: data_rows_def)
  have tw: "takeWhile (\<lambda>k. k \<noteq> col_real_phi) required_columns = short_header"
    using col_distinct by (simp add: required_columns_def short_header_def)
  have d: "\<forall>k\<in>set (takeWhile (\<lambda>k. k \<noteq> col_real_phi) required_columns).
      cell_value parse_decimal (header ?t) (hd (data_rows ?t)) k \<noteq> None"
    unfolding tw using short_header_cells
    by (simp add: header_def data_rows_def short_header_def)
  from missing_header_aborts [OF a b, of parse_decimal] c d show ?thesis
    by blast
qed

text \<open>
  C6 as stated fails: with the last required column missing and no data row the loader
  returns the five empty lists, and with a first cell that is not a number it raises the
  conversion error, not the key error.
\<close>

theorem missing_header_counterexample:
  "col_real_phi \<in> set required_columns
   \<and> col_real_phi \<notin> set (header [short_header])
   \<and> load parse_decimal [short_header] = Inr initial
   \<and> col_real_phi \<notin> set (header [short_header, [''abc'', ''30'', ''45'', ''31'']])
   \<and> load parse_decimal [short_header, [''abc'', ''30'', ''45'', ''31'']]
       = Inl (ValueError (CouldNotConvert ''abc''))"
proof -
  have "col_real_phi \<notin> set short_header"
    by (rule short_header_lacks)
  moreover have "load parse_decimal [short_header] = Inr initial"
    by (simp add: load_no_rows data_rows_def)
  moreover have "load parse_decimal [short_header, [''abc'', ''30'', ''45'', ''31'']]
       = Inl (ValueError (CouldNotConvert ''abc''))"
  proof -
    have "float_cell parse_decimal (dict_of_row short_header [''abc'', ''30'', ''45'', ''31''])
        col_R = Inl (ValueError (CouldNotConvert ''abc''))"
      by (simp add: float_cell_def getitem_def float_def bind_result_def dict_of_row_def
          short_header_def col_R_def col_test_theta_def col_test_phi_def col_real_theta_def
          parse_decimal_def)
    then have "load_row parse_decimal initial
        (dict_of_row short_header [''abc'', ''30'', ''45'', ''31''])
        = Inl (ValueError (CouldNotConvert ''abc''))"
      by (simp add: load_row_def bind_result_def)
    then show ?thesis
      by (simp add: load_def)
  qed
  ultimately show ?thesis
    by (simp add: header_def required_columns_def)
qed











subsection \<open>Properties of the renderer\<close>

lemma length_connect:
  "length (connect test_points real_points) = min (length test_points) (length real_points)"
  by (simp add: connect_def)

lemma nth_connect:
  assumes "i < length test_points" and "i < length real_points"
  shows "connect test_points real_points ! i =
     Plot [fst (test_points ! i), fst (real_points ! i)]
          [fst (snd (test_points ! i)), fst (snd (real_points ! i))]
          [snd (snd (test_points ! i)), snd (snd (real_points ! i))]"
  using assms by (simp add: connect_def case_prod_unfold)

lemma filter_connect:
  "filter is_Plot (connect test_points real_points) = connect test_points real_points"
  by (simp add: connect_def filter_map o_def case_prod_unfold)

lemma render_plots:
  "filter is_Plot (issued (render test_points real_points)) = connect test_points real_points"
proof (cases "test_points = [] \<or> real_points = []")
  case True
  then show ?thesis
    by (auto simp: render_def unzip3_def bind_result_def issued_def connect_def)
next
  case False
  then show ?thesis
    by (simp add: render_def unzip3_def bind_result_def issued_def filter_connect)
qed

text \<open>
  C8. For a test and a real sequence of the same length N, the segments the renderer
  issues are those of the connecting loop: there are exactly N, and the i-th joins
  test[i] to real[i].
\<close>

theorem one_segment_per_pair:
  assumes "length test_points = N" and "length real_points = N"
  shows "filter is_Plot (issued (render test_points real_points))
       = connect test_points real_points
     \<and> length (connect test_points real_points) = N
     \<and> (\<forall>i<N. connect test_points real_points ! i =
          Plot [fst (test_points ! i), fst (real_points ! i)]
               [fst (snd (test_points ! i)), fst (snd (real_points ! i))]
               [snd (snd (test_points ! i)), snd (snd (real_points ! i))])"
  using assms by (simp add: render_plots length_connect nth_connect)

theorem one_segment_per_pair_witness:
  "filter is_Plot (issued (render [(1, 2, 3), (4, 5, 6)] [(7, 8, 9), (10, 11, 12)]))
     = [Plot [1, 7] [2, 8] [3, 9], Plot [4, 10] [5, 11] [6, 12]]"
proof -
  have a: "length [(1, 2, 3), (4, 5, 6) :: point] = 2"
    and b: "length [(7, 8, 9), (10, 11, 12) :: point] = 2"
    by simp_all
  from one_segment_per_pair [OF a b] show ?thesis
    by (simp add: connect_def)
qed

subsection \<open>Purity of the transform\<close>

lemma locals_of_transform:
  "is_local spherical_to_cartesian_custom_params spherical_to_cartesian_custom_body n
     \<longleftrightarrow> n \<in> set [''R'', ''theta_deg'', ''phi_deg'', ''theta'', ''phi'', ''x'', ''y'', ''z'']"
  by (simp add: is_local_def spherical_to_cartesian_custom_params_def
      spherical_to_cartesian_custom_body_def assigned_def declared_global_def)

lemma exec_transform_body:
  assumes "loc ''R''" and "loc ''theta_deg''" and "loc ''phi_deg''" and "loc ''theta''"
    and "loc ''phi''" and "loc ''x''" and "loc ''y''" and "loc ''z''"
  shows "exec loc spherical_to_cartesian_custom_body
       [''R'' \<mapsto> Number R, ''theta_deg'' \<mapsto> Number theta, ''phi_deg'' \<mapsto> Number phi] G
     = (Inr (Some (spherical_to_cartesian_custom64 R theta phi)), G)"
  using assms
  by (simp add: spherical_to_cartesian_custom_body_def lookup_def
      spherical_to_cartesian_custom64_def Let_def)

lemma transform_arguments:
  "map_of (zip spherical_to_cartesian_custom_params (map Number [R, theta, phi]))
     = [''R'' \<mapsto> Number R, ''theta_deg'' \<mapsto> Number theta, ''phi_deg'' \<mapsto> Number phi]"
  by (auto simp: spherical_to_cartesian_custom_params_def)

text \<open>
  C9. The transform is pure and deterministic: run statement by statement on any
  arguments and any globals, the body returns the point that lines 15 to 17 compute from
  the arguments alone, so two calls with the same arguments return the same triple, and
  it leaves the globals as they were.
\<close>

theorem spherical_to_cartesian_custom_pure:
  "call spherical_to_cartesian_custom_params spherical_to_cartesian_custom_body
       [R, theta, phi] G
     = (Inr (Some (spherical_to_cartesian_custom64 R theta phi)), G)"
  unfolding call_def transform_arguments
  by (rule exec_transform_body) (simp_all add: locals_of_transform)

text \<open>
  Other bodies behave otherwise under the same semantics: with a \<^verbatim>\<open>global x\<close>
  declaration in front, the run of the same statements leaves \<^verbatim>\<open>x\<close> bound among the
  globals, and a body that reads a name it never binds returns what the globals hold.
\<close>

lemma exec_with_global_x:
  assumes "loc ''R''" and "loc ''theta_deg''" and "loc ''phi_deg''" and "loc ''theta''"
    and "loc ''phi''" and "\<not> loc ''x''" and "loc ''y''" and "loc ''z''"
  shows "exec loc (Global ''x'' # spherical_to_cartesian_custom_body)
       [''R'' \<mapsto> Number R, ''theta_deg'' \<mapsto> Number theta, ''phi_deg'' \<mapsto> Number phi] G
     = (Inr (Some (spherical_to_cartesian_custom64 R theta phi)),
        G(''x'' \<mapsto> Number (fst (spherical_to_cartesian_custom64 R theta phi))))"
  using assms
  by (simp add: spherical_to_cartesian_custom_body_def lookup_def
      spherical_to_cartesian_custom64_def Let_def)

lemma call_with_global_x:
  "call spherical_to_cartesian_custom_params
       (Global ''x'' # spherical_to_cartesian_custom_body) [R, theta, phi] G
     = (Inr (Some (spherical_to_cartesian_custom64 R theta phi)),
        G(''x'' \<mapsto> Number (fst (spherical_to_cartesian_custom64 R theta phi))))"
  unfolding call_def transform_arguments
  by (rule exec_with_global_x)
    (simp_all add: is_local_def spherical_to_cartesian_custom_params_def
      spherical_to_cartesian_custom_body_def assigned_def declared_global_def)

lemma call_reading_a_global:
  "call [''theta_deg''] [Return (Name ''R'') (Name ''R'') (Name ''R'')] [theta]
       [''R'' \<mapsto> Number R]
     = (Inr (Some (R, R, R)), [''R'' \<mapsto> Number R])"
  by (simp add: call_def is_local_def assigned_def declared_global_def lookup_def)

subsection \<open>The paired points\<close>








end
